theory Spec2Isabelle
  imports Main "HOL-Library.Word"
begin

section \<open>The stepper shell (drivers/stepper/stepper_shell.c)\<close>

text \<open>
  The shell handlers are straight-line C functions over three pieces of static state
  (\<open>poll_thread_started\<close>, \<open>stepper_signal\<close>, \<open>poll_thread\<close>) and a set of
  collaborators that live outside the file: the device registry, the C library's number
  parsers, the kernel's thread and poll primitives and the stepper driver API.
  The embedding passes the static state explicitly, logs every call that leaves the file
  (driver calls in \<open>hw_calls\<close>, kernel calls in \<open>kernel_calls\<close>, shell output in
  \<open>shell_out\<close>) and takes the answers of the collaborators from an environment record.
\<close>

subsection \<open>Constants\<close>

text \<open>The argument indices of the anonymous enum at the top of the file.\<close>

definition arg_idx_dev :: nat where
  "arg_idx_dev = 1"

definition arg_idx_param :: nat where
  "arg_idx_param = 2"

definition arg_idx_value :: nat where
  "arg_idx_value = 3"

text \<open>The errno values the file returns negated (Zephyr's errno.h).\<close>

definition ENOEXEC :: int where
  "ENOEXEC = 8"

definition ENODEV :: int where
  "ENODEV = 19"

definition EINVAL :: int where
  "EINVAL = 22"

subsection \<open>Data\<close>

text \<open>
  \<open>int32_t\<close> and \<open>uint32_t\<close> are 32-bit words, read with \<open>sint\<close> and
  \<open>uint\<close>; a conversion from a wider integer keeps the low 32 bits.
\<close>

type_synonym int32_t = "32 word"

type_synonym uint32_t = "32 word"

text \<open>\<open>struct device\<close>: the handlers read only its name.\<close>

record device =
  dev_name :: string

text \<open>
  \<open>struct k_poll_signal\<close>: the fields the shell and the kernel primitives read and
  write (\<open>signaled\<close> is an unsigned int, \<open>result\<close> an int).
\<close>

record k_poll_signal =
  signaled :: nat
  result :: int

text \<open>The addresses the file hands out: \<open>&stepper_signal\<close> and \<open>&poll_thread\<close>.\<close>

datatype sig_ptr = addr_stepper_signal

datatype k_tid = addr_poll_thread

text \<open>
  One call into the stepper driver API, with the arguments the shell passes.
  The two enums (\<open>micro_step_resolution\<close>, \<open>stepper_direction\<close>) carry the
  int that \<open>atoi\<close> returned, and a \<open>struct k_poll_signal *\<close> is \<open>None\<close>
  for NULL.
\<close>

datatype hw_call =
    Stepper_enable device bool
  | Stepper_move device int32_t "sig_ptr option"
  | Stepper_set_max_velocity device uint32_t
  | Stepper_set_micro_step_res device int
  | Stepper_set_actual_position device int32_t
  | Stepper_set_target_position device int32_t "sig_ptr option"
  | Stepper_enable_constant_velocity_mode device int uint32_t
  | Stepper_get_actual_position device
  | Stepper_get_micro_step_res device
  | Stepper_is_moving device

text \<open>
  What a driver call gives back: the int it returns and, for the three queries, the
  value it stored through the out pointer (\<open>None\<close> when it stored nothing, so the
  caller's initialised local keeps its value).
\<close>

record hw_reply =
  ret :: int
  out_val :: "int option"

text \<open>The kernel calls of \<open>start_polling\<close> and \<open>stepper_poll_thread\<close>.\<close>

datatype kernel_call =
    K_poll_signal_init
  | K_thread_create "k_tid option"
  | K_thread_name_set k_tid string
  | K_thread_start k_tid
  | K_poll_signal_reset

text \<open>
  Shell output: the level, the format string as written in the source, and the
  arguments in order.
\<close>

datatype fmt_arg = S string | D int

datatype shell_msg =
    Shell_error string "fmt_arg list"
  | Shell_warn string "fmt_arg list"
  | Shell_print string "fmt_arg list"

text \<open>
  The collaborators. The driver and \<open>k_thread_create\<close> may answer differently from
  call to call, so they see the calls made so far.
  \<open>CONFIG_STEPPER_SHELL_ASYNC\<close> is the build option that compiles the notifier in;
  \<open>STEPPER_SIGNAL_STEPS_COMPLETED\<close> is the driver header's result code.
\<close>

record env =
  CONFIG_STEPPER_SHELL_ASYNC :: bool
  STEPPER_SIGNAL_STEPS_COMPLETED :: int
  device_get_binding :: "string \<Rightarrow> device option"
  strtol :: "string \<Rightarrow> int"
  strtoul :: "string \<Rightarrow> int"
  atoi :: "string \<Rightarrow> int"
  thread_create_ret :: "kernel_call list \<Rightarrow> k_tid option"
  stepper_api :: "hw_call list \<Rightarrow> hw_call \<Rightarrow> hw_reply"

text \<open>The static state of the file and the three logs.\<close>

record shell_state =
  poll_thread_started :: bool
  stepper_signal :: k_poll_signal
  shell_out :: "shell_msg list"
  hw_calls :: "hw_call list"
  kernel_calls :: "kernel_call list"

text \<open>C zero-initialises statics; nothing has been called or printed yet.\<close>

definition init_state :: shell_state where
  "init_state =
     \<lparr>poll_thread_started = False,
      stepper_signal = \<lparr>signaled = 0, result = 0\<rparr>,
      shell_out = [],
      hw_calls = [],
      kernel_calls = []\<rparr>"

subsection \<open>Shell output\<close>

definition shell_error :: "string \<Rightarrow> fmt_arg list \<Rightarrow> shell_state \<Rightarrow> shell_state" where
  "shell_error fmt args s = s\<lparr>shell_out := shell_out s @ [Shell_error fmt args]\<rparr>"

definition shell_warn :: "string \<Rightarrow> fmt_arg list \<Rightarrow> shell_state \<Rightarrow> shell_state" where
  "shell_warn fmt args s = s\<lparr>shell_out := shell_out s @ [Shell_warn fmt args]\<rparr>"

definition shell_print :: "string \<Rightarrow> fmt_arg list \<Rightarrow> shell_state \<Rightarrow> shell_state" where
  "shell_print fmt args s = s\<lparr>shell_out := shell_out s @ [Shell_print fmt args]\<rparr>"

subsection \<open>The driver API\<close>

text \<open>A driver call is logged and answered by the environment.\<close>

definition hw :: "env \<Rightarrow> hw_call \<Rightarrow> shell_state \<Rightarrow> hw_reply \<times> shell_state" where
  "hw e c s = (stepper_api e (hw_calls s) c, s\<lparr>hw_calls := hw_calls s @ [c]\<rparr>)"

definition stepper_enable :: "env \<Rightarrow> device \<Rightarrow> bool \<Rightarrow> shell_state \<Rightarrow> int \<times> shell_state" where
  "stepper_enable e dev enable s = (case hw e (Stepper_enable dev enable) s of (r, s') \<Rightarrow> (ret r, s'))"

definition stepper_move ::
  "env \<Rightarrow> device \<Rightarrow> int32_t \<Rightarrow> sig_ptr option \<Rightarrow> shell_state \<Rightarrow> int \<times> shell_state" where
  "stepper_move e dev micro_steps sig s =
     (case hw e (Stepper_move dev micro_steps sig) s of (r, s') \<Rightarrow> (ret r, s'))"

definition stepper_set_max_velocity ::
  "env \<Rightarrow> device \<Rightarrow> uint32_t \<Rightarrow> shell_state \<Rightarrow> int \<times> shell_state" where
  "stepper_set_max_velocity e dev velocity s =
     (case hw e (Stepper_set_max_velocity dev velocity) s of (r, s') \<Rightarrow> (ret r, s'))"

definition stepper_set_micro_step_res ::
  "env \<Rightarrow> device \<Rightarrow> int \<Rightarrow> shell_state \<Rightarrow> int \<times> shell_state" where
  "stepper_set_micro_step_res e dev resolution s =
     (case hw e (Stepper_set_micro_step_res dev resolution) s of (r, s') \<Rightarrow> (ret r, s'))"

definition stepper_set_actual_position ::
  "env \<Rightarrow> device \<Rightarrow> int32_t \<Rightarrow> shell_state \<Rightarrow> int \<times> shell_state" where
  "stepper_set_actual_position e dev position s =
     (case hw e (Stepper_set_actual_position dev position) s of (r, s') \<Rightarrow> (ret r, s'))"

definition stepper_set_target_position ::
  "env \<Rightarrow> device \<Rightarrow> int32_t \<Rightarrow> sig_ptr option \<Rightarrow> shell_state \<Rightarrow> int \<times> shell_state" where
  "stepper_set_target_position e dev position sig s =
     (case hw e (Stepper_set_target_position dev position sig) s of (r, s') \<Rightarrow> (ret r, s'))"

definition stepper_enable_constant_velocity_mode ::
  "env \<Rightarrow> device \<Rightarrow> int \<Rightarrow> uint32_t \<Rightarrow> shell_state \<Rightarrow> int \<times> shell_state" where
  "stepper_enable_constant_velocity_mode e dev direction velocity s =
     (case hw e (Stepper_enable_constant_velocity_mode dev direction velocity) s of
        (r, s') \<Rightarrow> (ret r, s'))"

text \<open>
  The queries take the caller's local (already initialised) and give back its value
  after the call: what the driver stored, or the old value when it stored nothing.
\<close>

definition stepper_get_actual_position ::
  "env \<Rightarrow> device \<Rightarrow> int32_t \<Rightarrow> shell_state \<Rightarrow> (int \<times> int32_t) \<times> shell_state" where
  "stepper_get_actual_position e dev actual_position s =
     (case hw e (Stepper_get_actual_position dev) s of
        (r, s') \<Rightarrow>
          ((ret r, case out_val r of None \<Rightarrow> actual_position | Some v \<Rightarrow> word_of_int v), s'))"

definition stepper_get_micro_step_res ::
  "env \<Rightarrow> device \<Rightarrow> int \<Rightarrow> shell_state \<Rightarrow> (int \<times> int) \<times> shell_state" where
  "stepper_get_micro_step_res e dev micro_step_res s =
     (case hw e (Stepper_get_micro_step_res dev) s of
        (r, s') \<Rightarrow> ((ret r, case out_val r of None \<Rightarrow> micro_step_res | Some v \<Rightarrow> v), s'))"

definition stepper_is_moving ::
  "env \<Rightarrow> device \<Rightarrow> bool \<Rightarrow> shell_state \<Rightarrow> (int \<times> bool) \<times> shell_state" where
  "stepper_is_moving e dev is_moving s =
     (case hw e (Stepper_is_moving dev) s of
        (r, s') \<Rightarrow> ((ret r, case out_val r of None \<Rightarrow> is_moving | Some v \<Rightarrow> v \<noteq> 0), s'))"

subsection \<open>Kernel primitives\<close>

text \<open>
  Modelled from the spec: \<open>k_poll_signal_init\<close>, \<open>k_poll_signal_reset\<close>,
  \<open>k_poll_signal_raise\<close> and \<open>k_poll\<close> are kernel code, not part of the shell
  file. The spec's Completion Signal is idle or fired; here idle is \<open>signaled = 0\<close>
  and fired is \<open>signaled \<noteq> 0\<close> with the result code the driver raised. Initialising
  and resetting leave the signal idle, raising fires it, and \<open>k_poll\<close> with
  \<open>K_FOREVER\<close> lets the caller continue only once the signal is fired. The signal is
  armed when its address has been handed to a driver call (visible in \<open>hw_calls\<close>).
\<close>

definition k_poll_signal_init :: "shell_state \<Rightarrow> shell_state" where
  "k_poll_signal_init s =
     s\<lparr>stepper_signal := (stepper_signal s)\<lparr>signaled := 0\<rparr>,
       kernel_calls := kernel_calls s @ [K_poll_signal_init]\<rparr>"

definition k_poll_signal_reset :: "shell_state \<Rightarrow> shell_state" where
  "k_poll_signal_reset s =
     s\<lparr>stepper_signal := (stepper_signal s)\<lparr>signaled := 0\<rparr>,
       kernel_calls := kernel_calls s @ [K_poll_signal_reset]\<rparr>"

definition k_poll_signal_raise :: "int \<Rightarrow> shell_state \<Rightarrow> shell_state" where
  "k_poll_signal_raise r s = s\<lparr>stepper_signal := \<lparr>signaled = 1, result = r\<rparr>\<rparr>"

definition k_poll :: "shell_state \<Rightarrow> bool" where
  "k_poll s = (signaled (stepper_signal s) \<noteq> 0)"

text \<open>
  The thread primitives are logged; whether \<open>k_thread_create\<close> hands back a thread
  id or NULL is the environment's answer.
\<close>

definition k_thread_create :: "env \<Rightarrow> shell_state \<Rightarrow> k_tid option \<times> shell_state" where
  "k_thread_create e s =
     (let tid = thread_create_ret e (kernel_calls s)
      in (tid, s\<lparr>kernel_calls := kernel_calls s @ [K_thread_create tid]\<rparr>))"

definition k_thread_name_set :: "k_tid \<Rightarrow> string \<Rightarrow> shell_state \<Rightarrow> shell_state" where
  "k_thread_name_set tid name s = s\<lparr>kernel_calls := kernel_calls s @ [K_thread_name_set tid name]\<rparr>"

definition k_thread_start :: "k_tid \<Rightarrow> shell_state \<Rightarrow> shell_state" where
  "k_thread_start tid s = s\<lparr>kernel_calls := kernel_calls s @ [K_thread_start tid]\<rparr>"

subsection \<open>The notifier\<close>

text \<open>
  \<open>start_polling\<close>: when the flag is clear, initialise the signal and create the
  thread; on a NULL thread id print the error and return \<open>-ENOEXEC\<close> with the flag
  still clear; otherwise name and start the thread and set the flag. Returns 0 when the
  flag was already set.
\<close>

definition start_polling :: "env \<Rightarrow> shell_state \<Rightarrow> int \<times> shell_state" where
  "start_polling e s =
     (if \<not> poll_thread_started s then
        (case k_thread_create e (k_poll_signal_init s) of
           (None, s1) \<Rightarrow> (- ENOEXEC, shell_error ''Cannot start poll thread'' [] s1)
         | (Some tid, s1) \<Rightarrow>
             (0, (k_thread_start tid (k_thread_name_set tid ''stepper_poll_thread'' s1))
                   \<lparr>poll_thread_started := True\<rparr>))
      else (0, s))"

text \<open>
  One pass of the \<open>while (1)\<close> body of \<open>stepper_poll_thread\<close>. \<open>None\<close> means
  the thread stays blocked in \<open>k_poll\<close>; otherwise it has woken, and reports and
  resets when the result is \<open>STEPPER_SIGNAL_STEPS_COMPLETED\<close>.
\<close>

definition stepper_poll_thread_pass :: "env \<Rightarrow> shell_state \<Rightarrow> shell_state option" where
  "stepper_poll_thread_pass e s =
     (if \<not> k_poll s then None
      else if result (stepper_signal s) = STEPPER_SIGNAL_STEPS_COMPLETED e then
        Some (k_poll_signal_reset (shell_print ''Stepper: All steps completed'' [] s))
      else Some s)"

text \<open>
  The loop itself never returns. With a bound on the number of passes it either comes
  to rest blocked in \<open>k_poll\<close> or is still runnable when the bound is used up.
\<close>

datatype thread_status = Blocked | Runnable

fun stepper_poll_thread :: "env \<Rightarrow> nat \<Rightarrow> shell_state \<Rightarrow> thread_status \<times> shell_state" where
  "stepper_poll_thread e 0 s = (if k_poll s then Runnable else Blocked, s)"
| "stepper_poll_thread e (Suc n) s =
     (case stepper_poll_thread_pass e s of
        None \<Rightarrow> (Blocked, s)
      | Some s' \<Rightarrow> stepper_poll_thread e n s')"

subsection \<open>The command handlers\<close>

text \<open>
  Every handler has the signature \<open>(sh, argc, argv)\<close>. The shell instance is the
  output log of the state, \<open>argc\<close> is never read, and \<open>argv\<close> is the list of tokens
  with the command name at index 0. A handler returns its int and the new state.
\<close>

type_synonym shell_cmd_handler = "env \<Rightarrow> string list \<Rightarrow> shell_state \<Rightarrow> int \<times> shell_state"

text \<open>
  \<open>parse_device_arg\<close> returns \<open>-ENODEV\<close> after printing, or 0 with \<open>*dev\<close> set.
  The two outcomes are \<open>Inl\<close> of the negative code and \<open>Inr\<close> of the device, so the
  callers' \<open>if (err < 0) return err;\<close> is the \<open>Inl\<close> branch.
\<close>

definition parse_device_arg :: "env \<Rightarrow> string list \<Rightarrow> shell_state \<Rightarrow> (int + device) \<times> shell_state" where
  "parse_device_arg e argv s =
     (case device_get_binding e (argv ! arg_idx_dev) of
        None \<Rightarrow>
          (Inl (- ENODEV),
           shell_error ''Stepper device %s not found'' [S (argv ! arg_idx_dev)] s)
      | Some dev \<Rightarrow> (Inr dev, s))"

definition cmd_stepper_enable :: shell_cmd_handler where
  "cmd_stepper_enable e argv s =
     (case (if argv ! arg_idx_param = ''on'' then Some True
            else if argv ! arg_idx_param = ''off'' then Some False
            else None) of
        None \<Rightarrow>
          (- EINVAL, shell_error ''Invalid enable value: %s'' [S (argv ! arg_idx_param)] s)
      | Some enable \<Rightarrow>
          (case parse_device_arg e argv s of
             (Inl err, s1) \<Rightarrow> (err, s1)
           | (Inr dev, s1) \<Rightarrow>
               (case stepper_enable e dev enable s1 of
                  (err, s2) \<Rightarrow>
                    (err, if err \<noteq> 0 then shell_error ''Error: %d'' [D err] s2 else s2))))"

definition cmd_stepper_move :: shell_cmd_handler where
  "cmd_stepper_move e argv s =
     (let micro_steps = (word_of_int (strtol e (argv ! arg_idx_param)) :: int32_t);
          poll_signal = (if CONFIG_STEPPER_SHELL_ASYNC e then Some addr_stepper_signal else None)
      in case parse_device_arg e argv s of
           (Inl err, s1) \<Rightarrow> (err, s1)
         | (Inr dev, s1) \<Rightarrow>
             (let s2 = (if CONFIG_STEPPER_SHELL_ASYNC e then snd (start_polling e s1) else s1)
              in case stepper_move e dev micro_steps poll_signal s2 of
                   (err, s3) \<Rightarrow>
                     (err, if err \<noteq> 0 then shell_error ''Error: %d'' [D err] s3 else s3)))"

definition cmd_stepper_set_max_velocity :: shell_cmd_handler where
  "cmd_stepper_set_max_velocity e argv s =
     (let velocity = (word_of_int (strtoul e (argv ! arg_idx_param)) :: uint32_t)
      in case parse_device_arg e argv s of
           (Inl err, s1) \<Rightarrow> (err, s1)
         | (Inr dev, s1) \<Rightarrow>
             (case stepper_set_max_velocity e dev velocity s1 of
                (err, s2) \<Rightarrow>
                  (err, if err \<noteq> 0 then shell_error ''Error: %d'' [D err] s2 else s2)))"

definition cmd_stepper_set_micro_step_res :: shell_cmd_handler where
  "cmd_stepper_set_micro_step_res e argv s =
     (let resolution = atoi e (argv ! arg_idx_param)
      in case parse_device_arg e argv s of
           (Inl err, s1) \<Rightarrow> (err, s1)
         | (Inr dev, s1) \<Rightarrow>
             (case stepper_set_micro_step_res e dev resolution s1 of
                (err, s2) \<Rightarrow>
                  (err, if err \<noteq> 0 then shell_error ''Error: %d'' [D err] s2 else s2)))"

definition cmd_stepper_set_actual_position :: shell_cmd_handler where
  "cmd_stepper_set_actual_position e argv s =
     (let position = (word_of_int (strtol e (argv ! arg_idx_param)) :: int32_t)
      in case parse_device_arg e argv s of
           (Inl err, s1) \<Rightarrow> (err, s1)
         | (Inr dev, s1) \<Rightarrow>
             (case stepper_set_actual_position e dev position s1 of
                (err, s2) \<Rightarrow>
                  (err, if err \<noteq> 0 then shell_error ''Error: %d'' [D err] s2 else s2)))"

definition cmd_stepper_set_target_position :: shell_cmd_handler where
  "cmd_stepper_set_target_position e argv s =
     (let position = (word_of_int (strtol e (argv ! arg_idx_param)) :: int32_t);
          poll_signal = (if CONFIG_STEPPER_SHELL_ASYNC e then Some addr_stepper_signal else None)
      in case parse_device_arg e argv s of
           (Inl err, s1) \<Rightarrow> (err, s1)
         | (Inr dev, s1) \<Rightarrow>
             (let s2 = (if CONFIG_STEPPER_SHELL_ASYNC e then snd (start_polling e s1) else s1)
              in case stepper_set_target_position e dev position poll_signal s2 of
                   (err, s3) \<Rightarrow>
                     (err, if err \<noteq> 0 then shell_error ''Error: %d'' [D err] s3 else s3)))"

definition cmd_stepper_enable_constant_velocity_mode :: shell_cmd_handler where
  "cmd_stepper_enable_constant_velocity_mode e argv s =
     (let direction = atoi e (argv ! arg_idx_param);
          velocity = (word_of_int (strtoul e (argv ! arg_idx_value)) :: uint32_t)
      in case parse_device_arg e argv s of
           (Inl err, s1) \<Rightarrow> (err, s1)
         | (Inr dev, s1) \<Rightarrow>
             (case stepper_enable_constant_velocity_mode e dev direction velocity s1 of
                (err, s2) \<Rightarrow>
                  (err, if err \<noteq> 0 then shell_error ''Error: %d'' [D err] s2 else s2)))"

text \<open>
  \<open>cmd_stepper_info\<close>: the three queries in source order; after each one either the
  warning (\<open>err < 0\<close>) or the value is printed. The handler ends with \<open>return 0\<close>.
\<close>

definition cmd_stepper_info :: shell_cmd_handler where
  "cmd_stepper_info e argv s =
     (case parse_device_arg e argv s of
        (Inl err, s1) \<Rightarrow> (err, s1)
      | (Inr dev, s1) \<Rightarrow>
          (let s2 = shell_print ''Stepper Info:'' [] s1;
               s3 = shell_print ''Device: %s'' [S (dev_name dev)] s2
           in case stepper_get_actual_position e dev 0 s3 of
                ((err1, actual_position), s4) \<Rightarrow>
                  (let s5 = (if err1 < 0
                             then shell_warn ''Failed to get actual position: %d'' [D err1] s4
                             else shell_print ''Actual Position: %d'' [D (sint actual_position)] s4)
                   in case stepper_get_micro_step_res e dev 0 s5 of
                        ((err2, micro_step_res), s6) \<Rightarrow>
                          (let s7 = (if err2 < 0
                                     then shell_warn ''Failed to get micro-step resolution: %d''
                                            [D err2] s6
                                     else shell_print ''Micro-step Resolution: %d''
                                            [D micro_step_res] s6)
                           in case stepper_is_moving e dev False s7 of
                                ((err3, is_moving), s8) \<Rightarrow>
                                  (0, if err3 < 0
                                      then shell_warn ''Failed to check if the motor is moving: %d''
                                             [D err3] s8
                                      else shell_print ''Is Moving: %s''
                                             [S (if is_moving then ''Yes'' else ''No'')] s8)))))"

text \<open>
  The command table \<open>stepper_cmds\<close>: syntax, handler, mandatory and optional argument
  counts (the counts include the command name). The shell calls a handler only with
  an \<open>argv\<close> of the mandatory length, since every entry has 0 optional arguments.
\<close>

definition stepper_cmds :: "(string \<times> shell_cmd_handler \<times> nat \<times> nat) list" where
  "stepper_cmds =
     [(''enable'', cmd_stepper_enable, 3, 0),
      (''move'', cmd_stepper_move, 3, 0),
      (''set_max_velocity'', cmd_stepper_set_max_velocity, 3, 0),
      (''set_micro_step_res'', cmd_stepper_set_micro_step_res, 3, 0),
      (''set_actual_position'', cmd_stepper_set_actual_position, 3, 0),
      (''set_target_position'', cmd_stepper_set_target_position, 3, 0),
      (''enable_constant_velocity_mode'', cmd_stepper_enable_constant_velocity_mode, 4, 0),
      (''info'', cmd_stepper_info, 2, 0)]"

text \<open>A session: handlers run one after the other on the shared static state.\<close>

fun run_cmds :: "env \<Rightarrow> (shell_cmd_handler \<times> string list) list \<Rightarrow> shell_state \<Rightarrow> shell_state" where
  "run_cmds e [] s = s"
| "run_cmds e ((h, argv) # cs) s = run_cmds e cs (snd (h e argv s))"


subsection \<open>What a handler does, in closed form\<close>

text \<open>
  Every handler except \<open>info\<close> ends in one of two ways once its own checks are
  done: the device is unknown (\<open>not_found\<close>: the message of \<open>parse_device_arg\<close>
  and \<open>-ENODEV\<close>), or one driver call is issued, its code is printed when it is
  not 0, and returned (\<open>issue\<close>). The two asynchronous handlers pass
  \<open>notifier\<close> to the driver and run \<open>ensure_listener\<close> first; the value
  \<open>start_polling\<close> returns is dropped there, as in the source.
\<close>

definition not_found :: "string list \<Rightarrow> shell_state \<Rightarrow> int \<times> shell_state" where
  "not_found argv s =
     (- ENODEV, shell_error ''Stepper device %s not found'' [S (argv ! arg_idx_dev)] s)"

definition issue :: "env \<Rightarrow> hw_call \<Rightarrow> shell_state \<Rightarrow> int \<times> shell_state" where
  "issue e c s =
     (let err = ret (stepper_api e (hw_calls s) c);
          s' = s\<lparr>hw_calls := hw_calls s @ [c]\<rparr>
      in (err, if err \<noteq> 0 then shell_error ''Error: %d'' [D err] s' else s'))"

definition notifier :: "env \<Rightarrow> sig_ptr option" where
  "notifier e = (if CONFIG_STEPPER_SHELL_ASYNC e then Some addr_stepper_signal else None)"

definition ensure_listener :: "env \<Rightarrow> shell_state \<Rightarrow> shell_state" where
  "ensure_listener e s = (if CONFIG_STEPPER_SHELL_ASYNC e then snd (start_polling e s) else s)"

text \<open>The line \<open>info\<close> prints after each query, from that query's reply alone.\<close>

definition report_actual_position :: "hw_reply \<Rightarrow> shell_msg" where
  "report_actual_position r =
     (if ret r < 0 then Shell_warn ''Failed to get actual position: %d'' [D (ret r)]
      else Shell_print ''Actual Position: %d''
             [D (sint (case out_val r of None \<Rightarrow> (0 :: int32_t) | Some v \<Rightarrow> word_of_int v))])"

definition report_micro_step_res :: "hw_reply \<Rightarrow> shell_msg" where
  "report_micro_step_res r =
     (if ret r < 0 then Shell_warn ''Failed to get micro-step resolution: %d'' [D (ret r)]
      else Shell_print ''Micro-step Resolution: %d''
             [D (case out_val r of None \<Rightarrow> 0 | Some v \<Rightarrow> v)])"

definition report_is_moving :: "hw_reply \<Rightarrow> shell_msg" where
  "report_is_moving r =
     (if ret r < 0 then Shell_warn ''Failed to check if the motor is moving: %d'' [D (ret r)]
      else Shell_print ''Is Moving: %s''
             [S (if (case out_val r of None \<Rightarrow> False | Some v \<Rightarrow> v \<noteq> 0) then ''Yes'' else ''No'')])"

subsection \<open>Counting listener threads\<close>

text \<open>
  A thread has been created for every \<open>k_thread_create\<close> that gave back a thread
  id, and started for every \<open>k_thread_start\<close>. The invariant ties both counts to
  the flag \<open>poll_thread_started\<close>.
\<close>

fun is_thread_created :: "kernel_call \<Rightarrow> bool" where
  "is_thread_created (K_thread_create (Some tid)) = True"
| "is_thread_created c = False"

fun is_thread_start :: "kernel_call \<Rightarrow> bool" where
  "is_thread_start (K_thread_start tid) = True"
| "is_thread_start c = False"

definition threads_created :: "shell_state \<Rightarrow> nat" where
  "threads_created s = length (filter is_thread_created (kernel_calls s))"

definition threads_started :: "shell_state \<Rightarrow> nat" where
  "threads_started s = length (filter is_thread_start (kernel_calls s))"

definition notifier_inv :: "shell_state \<Rightarrow> bool" where
  "notifier_inv s =
     (threads_created s = (if poll_thread_started s then 1 else 0) \<and>
      threads_started s = (if poll_thread_started s then 1 else 0))"

text \<open>The handlers of the command table.\<close>

definition stepper_handlers :: "shell_cmd_handler list" where
  "stepper_handlers = map (\<lambda>(name, handler, mandatory, optional). handler) stepper_cmds"

text \<open>
  The commands that take a number, and the driver call each of them makes for a
  device: the token goes through the C library's parser and the value is passed on as
  it comes back (cut to 32 bits for \<open>int32_t\<close> and \<open>uint32_t\<close>).
\<close>

definition numeric_cmds :: "string list" where
  "numeric_cmds =
     [''move'', ''set_max_velocity'', ''set_micro_step_res'', ''set_actual_position'',
      ''set_target_position'', ''enable_constant_velocity_mode'']"

definition numeric_call :: "env \<Rightarrow> string \<Rightarrow> string list \<Rightarrow> device \<Rightarrow> hw_call" where
  "numeric_call e name argv dev =
     (if name = ''move'' then
        Stepper_move dev (word_of_int (strtol e (argv ! arg_idx_param))) (notifier e)
      else if name = ''set_max_velocity'' then
        Stepper_set_max_velocity dev (word_of_int (strtoul e (argv ! arg_idx_param)))
      else if name = ''set_micro_step_res'' then
        Stepper_set_micro_step_res dev (atoi e (argv ! arg_idx_param))
      else if name = ''set_actual_position'' then
        Stepper_set_actual_position dev (word_of_int (strtol e (argv ! arg_idx_param)))
      else if name = ''set_target_position'' then
        Stepper_set_target_position dev (word_of_int (strtol e (argv ! arg_idx_param))) (notifier e)
      else
        Stepper_enable_constant_velocity_mode dev (atoi e (argv ! arg_idx_param))
          (word_of_int (strtoul e (argv ! arg_idx_value))))"

subsection \<open>Worked environments\<close>

text \<open>
  Concrete collaborators for the examples. \<open>demo_strtol\<close> reads an optional sign
  and the leading decimal digits of a token and gives 0 when there are none, which is
  what \<open>strtol\<close>, \<open>strtoul\<close> and \<open>atoi\<close> do on the tokens used below.
  \<open>demo_env\<close> knows one device, \<open>motorA\<close>; its driver accepts every call and
  its kernel creates the thread. The other environments change one answer each: the
  first thread creation fails (\<open>flaky_env\<close>), every thread creation fails
  (\<open>no_thread_env\<close>), every driver call fails with \<open>-EIO\<close> (\<open>faulty_env\<close>),
  only the position and resolution queries succeed (\<open>half_env\<close>).
\<close>

definition is_digit :: "char \<Rightarrow> bool" where
  "is_digit c = (48 \<le> (of_char c :: nat) \<and> (of_char c :: nat) \<le> 57)"

fun dec_prefix :: "int \<Rightarrow> string \<Rightarrow> int" where
  "dec_prefix acc [] = acc"
| "dec_prefix acc (c # cs) =
     (if is_digit c then dec_prefix (10 * acc + (of_char c - 48)) cs else acc)"

definition demo_strtol :: "string \<Rightarrow> int" where
  "demo_strtol tok =
     (case tok of
        [] \<Rightarrow> 0
      | c # cs \<Rightarrow>
          if c = CHR ''-'' then - dec_prefix 0 cs
          else if c = CHR ''+'' then dec_prefix 0 cs
          else dec_prefix 0 tok)"

definition motorA :: device where
  "motorA = \<lparr>dev_name = ''motorA''\<rparr>"

definition demo_env :: env where
  "demo_env =
     \<lparr>CONFIG_STEPPER_SHELL_ASYNC = True,
      STEPPER_SIGNAL_STEPS_COMPLETED = 0,
      device_get_binding = (\<lambda>name. if name = ''motorA'' then Some motorA else None),
      strtol = demo_strtol,
      strtoul = demo_strtol,
      atoi = demo_strtol,
      thread_create_ret = (\<lambda>calls. Some addr_poll_thread),
      stepper_api = (\<lambda>calls c. \<lparr>ret = 0, out_val = None\<rparr>)\<rparr>"

definition flaky_env :: env where
  "flaky_env =
     demo_env\<lparr>thread_create_ret :=
       (\<lambda>calls. if K_thread_create None \<in> set calls then Some addr_poll_thread else None)\<rparr>"

definition no_thread_env :: env where
  "no_thread_env = demo_env\<lparr>thread_create_ret := (\<lambda>calls. None)\<rparr>"

definition EIO :: int where
  "EIO = 5"

definition faulty_env :: env where
  "faulty_env = demo_env\<lparr>stepper_api := (\<lambda>calls c. \<lparr>ret = - EIO, out_val = None\<rparr>)\<rparr>"

definition half_env :: env where
  "half_env =
     demo_env\<lparr>stepper_api :=
       (\<lambda>calls c. case c of
          Stepper_get_actual_position dev \<Rightarrow> \<lparr>ret = 0, out_val = Some 1200\<rparr>
        | Stepper_get_micro_step_res dev \<Rightarrow> \<lparr>ret = 0, out_val = Some 16\<rparr>
        | _ \<Rightarrow> \<lparr>ret = - EIO, out_val = None\<rparr>)\<rparr>"

section \<open>Properties\<close>

subsection \<open>Unfolding sets\<close>

lemmas out_defs = shell_error_def shell_warn_def shell_print_def

lemmas kernel_defs = k_poll_signal_init_def k_poll_signal_reset_def k_thread_create_def
  k_thread_name_set_def k_thread_start_def

lemmas demo_defs = demo_env_def demo_strtol_def is_digit_def motorA_def arg_idx_dev_def
  arg_idx_param_def arg_idx_value_def

subsection \<open>Device resolution and the notifier\<close>

lemma parse_device_arg_unbound:
  "device_get_binding e (argv ! arg_idx_dev) = None \<Longrightarrow>
   parse_device_arg e argv s =
     (Inl (- ENODEV), shell_error ''Stepper device %s not found'' [S (argv ! arg_idx_dev)] s)"
  by (simp add: parse_device_arg_def)

lemma parse_device_arg_bound:
  "device_get_binding e (argv ! arg_idx_dev) = Some dev \<Longrightarrow>
   parse_device_arg e argv s = (Inr dev, s)"
  by (simp add: parse_device_arg_def)

lemma start_polling_hw_calls: "hw_calls (snd (start_polling e s)) = hw_calls s"
  by (simp add: start_polling_def kernel_defs out_defs Let_def split: option.splits)

lemma start_polling_started: "poll_thread_started s \<Longrightarrow> start_polling e s = (0, s)"
  by (simp add: start_polling_def)

lemma start_polling_set:
  "\<not> poll_thread_started s \<Longrightarrow>
   thread_create_ret e (kernel_calls s @ [K_poll_signal_init]) = Some tid \<Longrightarrow>
   start_polling e s =
     (0, s\<lparr>poll_thread_started := True,
           stepper_signal := (stepper_signal s)\<lparr>signaled := 0\<rparr>,
           kernel_calls := kernel_calls s @
             [K_poll_signal_init, K_thread_create (Some tid),
              K_thread_name_set tid ''stepper_poll_thread'', K_thread_start tid]\<rparr>)"
  by (simp add: start_polling_def kernel_defs Let_def)

lemma start_polling_fail:
  "\<not> poll_thread_started s \<Longrightarrow>
   thread_create_ret e (kernel_calls s @ [K_poll_signal_init]) = None \<Longrightarrow>
   start_polling e s =
     (- ENOEXEC,
      s\<lparr>stepper_signal := (stepper_signal s)\<lparr>signaled := 0\<rparr>,
        kernel_calls := kernel_calls s @ [K_poll_signal_init, K_thread_create None],
        shell_out := shell_out s @ [Shell_error ''Cannot start poll thread'' []]\<rparr>)"
  by (simp add: start_polling_def kernel_defs out_defs Let_def)

lemma hw_calls_ensure_listener: "hw_calls (ensure_listener e s) = hw_calls s"
  by (simp add: ensure_listener_def start_polling_hw_calls)

subsection \<open>The two endings of a handler\<close>

lemma fst_issue: "fst (issue e c s) = ret (stepper_api e (hw_calls s) c)"
  by (simp add: issue_def Let_def)

lemma hw_calls_issue: "hw_calls (snd (issue e c s)) = hw_calls s @ [c]"
  by (simp add: issue_def Let_def out_defs)

lemma statics_issue:
  "poll_thread_started (snd (issue e c s)) = poll_thread_started s"
  "stepper_signal (snd (issue e c s)) = stepper_signal s"
  "kernel_calls (snd (issue e c s)) = kernel_calls s"
  by (simp_all add: issue_def Let_def out_defs)

lemma fst_not_found: "fst (not_found argv s) = - ENODEV"
  by (simp add: not_found_def)

lemma statics_not_found:
  "poll_thread_started (snd (not_found argv s)) = poll_thread_started s"
  "stepper_signal (snd (not_found argv s)) = stepper_signal s"
  "kernel_calls (snd (not_found argv s)) = kernel_calls s"
  "hw_calls (snd (not_found argv s)) = hw_calls s"
  by (simp_all add: not_found_def out_defs)

subsection \<open>Handlers on an unknown device\<close>

lemma invalid_enable:
  "argv ! arg_idx_param \<noteq> ''on'' \<Longrightarrow> argv ! arg_idx_param \<noteq> ''off'' \<Longrightarrow>
   cmd_stepper_enable e argv s =
     (- EINVAL, shell_error ''Invalid enable value: %s'' [S (argv ! arg_idx_param)] s)"
  by (simp add: cmd_stepper_enable_def)

lemma unbound_enable:
  "device_get_binding e (argv ! arg_idx_dev) = None \<Longrightarrow>
   argv ! arg_idx_param = ''on'' \<or> argv ! arg_idx_param = ''off'' \<Longrightarrow>
   cmd_stepper_enable e argv s = not_found argv s"
  by (auto simp add: cmd_stepper_enable_def parse_device_arg_unbound not_found_def)

lemma unbound_move:
  "device_get_binding e (argv ! arg_idx_dev) = None \<Longrightarrow> cmd_stepper_move e argv s = not_found argv s"
  by (simp add: cmd_stepper_move_def parse_device_arg_unbound not_found_def)

lemma unbound_set_max_velocity:
  "device_get_binding e (argv ! arg_idx_dev) = None \<Longrightarrow>
   cmd_stepper_set_max_velocity e argv s = not_found argv s"
  by (simp add: cmd_stepper_set_max_velocity_def parse_device_arg_unbound not_found_def)

lemma unbound_set_micro_step_res:
  "device_get_binding e (argv ! arg_idx_dev) = None \<Longrightarrow>
   cmd_stepper_set_micro_step_res e argv s = not_found argv s"
  by (simp add: cmd_stepper_set_micro_step_res_def parse_device_arg_unbound not_found_def)

lemma unbound_set_actual_position:
  "device_get_binding e (argv ! arg_idx_dev) = None \<Longrightarrow>
   cmd_stepper_set_actual_position e argv s = not_found argv s"
  by (simp add: cmd_stepper_set_actual_position_def parse_device_arg_unbound not_found_def)

lemma unbound_set_target_position:
  "device_get_binding e (argv ! arg_idx_dev) = None \<Longrightarrow>
   cmd_stepper_set_target_position e argv s = not_found argv s"
  by (simp add: cmd_stepper_set_target_position_def parse_device_arg_unbound not_found_def)

lemma unbound_enable_constant_velocity_mode:
  "device_get_binding e (argv ! arg_idx_dev) = None \<Longrightarrow>
   cmd_stepper_enable_constant_velocity_mode e argv s = not_found argv s"
  by (simp add: cmd_stepper_enable_constant_velocity_mode_def parse_device_arg_unbound not_found_def)

lemma unbound_info:
  "device_get_binding e (argv ! arg_idx_dev) = None \<Longrightarrow> cmd_stepper_info e argv s = not_found argv s"
  by (simp add: cmd_stepper_info_def parse_device_arg_unbound not_found_def)

subsection \<open>Handlers on a known device\<close>

lemma bound_enable:
  "device_get_binding e (argv ! arg_idx_dev) = Some dev \<Longrightarrow>
   argv ! arg_idx_param = ''on'' \<or> argv ! arg_idx_param = ''off'' \<Longrightarrow>
   cmd_stepper_enable e argv s = issue e (Stepper_enable dev (argv ! arg_idx_param = ''on'')) s"
  by (auto simp add: cmd_stepper_enable_def parse_device_arg_bound issue_def stepper_enable_def
      hw_def Let_def)

lemma bound_move:
  "device_get_binding e (argv ! arg_idx_dev) = Some dev \<Longrightarrow>
   cmd_stepper_move e argv s =
     issue e (Stepper_move dev (word_of_int (strtol e (argv ! arg_idx_param))) (notifier e))
       (ensure_listener e s)"
  by (simp add: cmd_stepper_move_def parse_device_arg_bound issue_def stepper_move_def
      hw_def Let_def notifier_def ensure_listener_def)

lemma bound_set_max_velocity:
  "device_get_binding e (argv ! arg_idx_dev) = Some dev \<Longrightarrow>
   cmd_stepper_set_max_velocity e argv s =
     issue e (Stepper_set_max_velocity dev (word_of_int (strtoul e (argv ! arg_idx_param)))) s"
  by (simp add: cmd_stepper_set_max_velocity_def parse_device_arg_bound issue_def
      stepper_set_max_velocity_def hw_def Let_def)

lemma bound_set_micro_step_res:
  "device_get_binding e (argv ! arg_idx_dev) = Some dev \<Longrightarrow>
   cmd_stepper_set_micro_step_res e argv s =
     issue e (Stepper_set_micro_step_res dev (atoi e (argv ! arg_idx_param))) s"
  by (simp add: cmd_stepper_set_micro_step_res_def parse_device_arg_bound issue_def
      stepper_set_micro_step_res_def hw_def Let_def)

lemma bound_set_actual_position:
  "device_get_binding e (argv ! arg_idx_dev) = Some dev \<Longrightarrow>
   cmd_stepper_set_actual_position e argv s =
     issue e (Stepper_set_actual_position dev (word_of_int (strtol e (argv ! arg_idx_param)))) s"
  by (simp add: cmd_stepper_set_actual_position_def parse_device_arg_bound issue_def
      stepper_set_actual_position_def hw_def Let_def)

lemma bound_set_target_position:
  "device_get_binding e (argv ! arg_idx_dev) = Some dev \<Longrightarrow>
   cmd_stepper_set_target_position e argv s =
     issue e (Stepper_set_target_position dev (word_of_int (strtol e (argv ! arg_idx_param)))
                (notifier e))
       (ensure_listener e s)"
  by (simp add: cmd_stepper_set_target_position_def parse_device_arg_bound issue_def
      stepper_set_target_position_def hw_def Let_def notifier_def ensure_listener_def)

lemma bound_enable_constant_velocity_mode:
  "device_get_binding e (argv ! arg_idx_dev) = Some dev \<Longrightarrow>
   cmd_stepper_enable_constant_velocity_mode e argv s =
     issue e (Stepper_enable_constant_velocity_mode dev (atoi e (argv ! arg_idx_param))
                (word_of_int (strtoul e (argv ! arg_idx_value)))) s"
  by (simp add: cmd_stepper_enable_constant_velocity_mode_def parse_device_arg_bound issue_def
      stepper_enable_constant_velocity_mode_def hw_def Let_def)

text \<open>
  \<open>info\<close> is unfolded query by query; the choice between warning and value is kept
  as a choice of message, so that no case split on the three return codes is needed.
\<close>

lemma warn_or_print:
  "(if c then shell_warn f1 a1 s else shell_print f2 a2 s) =
   s\<lparr>shell_out := shell_out s @ [if c then Shell_warn f1 a1 else Shell_print f2 a2]\<rparr>"
  by (simp add: out_defs)

lemma get_actual_position_eq:
  "stepper_get_actual_position e dev v s =
     ((ret (stepper_api e (hw_calls s) (Stepper_get_actual_position dev)),
       case out_val (stepper_api e (hw_calls s) (Stepper_get_actual_position dev)) of
         None \<Rightarrow> v | Some x \<Rightarrow> word_of_int x),
      s\<lparr>hw_calls := hw_calls s @ [Stepper_get_actual_position dev]\<rparr>)"
  by (simp add: stepper_get_actual_position_def hw_def)

lemma get_micro_step_res_eq:
  "stepper_get_micro_step_res e dev v s =
     ((ret (stepper_api e (hw_calls s) (Stepper_get_micro_step_res dev)),
       case out_val (stepper_api e (hw_calls s) (Stepper_get_micro_step_res dev)) of
         None \<Rightarrow> v | Some x \<Rightarrow> x),
      s\<lparr>hw_calls := hw_calls s @ [Stepper_get_micro_step_res dev]\<rparr>)"
  by (simp add: stepper_get_micro_step_res_def hw_def)

lemma is_moving_eq:
  "stepper_is_moving e dev v s =
     ((ret (stepper_api e (hw_calls s) (Stepper_is_moving dev)),
       case out_val (stepper_api e (hw_calls s) (Stepper_is_moving dev)) of
         None \<Rightarrow> v | Some x \<Rightarrow> x \<noteq> 0),
      s\<lparr>hw_calls := hw_calls s @ [Stepper_is_moving dev]\<rparr>)"
  by (simp add: stepper_is_moving_def hw_def)

lemma bound_info:
  "device_get_binding e (argv ! arg_idx_dev) = Some dev \<Longrightarrow>
   cmd_stepper_info e argv s =
     (0, s\<lparr>shell_out := shell_out s @
              [Shell_print ''Stepper Info:'' [],
               Shell_print ''Device: %s'' [S (dev_name dev)],
               report_actual_position (stepper_api e (hw_calls s) (Stepper_get_actual_position dev)),
               report_micro_step_res
                 (stepper_api e (hw_calls s @ [Stepper_get_actual_position dev])
                    (Stepper_get_micro_step_res dev)),
               report_is_moving
                 (stepper_api e
                    (hw_calls s @ [Stepper_get_actual_position dev, Stepper_get_micro_step_res dev])
                    (Stepper_is_moving dev))],
            hw_calls := hw_calls s @
              [Stepper_get_actual_position dev, Stepper_get_micro_step_res dev,
               Stepper_is_moving dev]\<rparr>)"
  apply (simp only: cmd_stepper_info_def parse_device_arg_bound Let_def prod.case sum.case
      get_actual_position_eq get_micro_step_res_eq is_moving_eq warn_or_print)
  apply (simp add: shell_print_def report_actual_position_def report_micro_step_res_def
      report_is_moving_def)
  done

subsection \<open>The command table, entry by entry\<close>

lemma stepper_cmds_cases:
  assumes "(name, h, mandatory, optional) \<in> set stepper_cmds"
  obtains
    (enable) "name = ''enable''" "h = cmd_stepper_enable" "mandatory = 3"
  | (move) "name = ''move''" "h = cmd_stepper_move" "mandatory = 3"
  | (set_max_velocity) "name = ''set_max_velocity''" "h = cmd_stepper_set_max_velocity"
      "mandatory = 3"
  | (set_micro_step_res) "name = ''set_micro_step_res''" "h = cmd_stepper_set_micro_step_res"
      "mandatory = 3"
  | (set_actual_position) "name = ''set_actual_position''" "h = cmd_stepper_set_actual_position"
      "mandatory = 3"
  | (set_target_position) "name = ''set_target_position''" "h = cmd_stepper_set_target_position"
      "mandatory = 3"
  | (enable_constant_velocity_mode) "name = ''enable_constant_velocity_mode''"
      "h = cmd_stepper_enable_constant_velocity_mode" "mandatory = 4"
  | (info) "name = ''info''" "h = cmd_stepper_info" "mandatory = 2"
proof -
  from assms have
    "(name = ''enable'' \<and> h = cmd_stepper_enable \<and> mandatory = 3 \<and> optional = 0) \<or>
     (name = ''move'' \<and> h = cmd_stepper_move \<and> mandatory = 3 \<and> optional = 0) \<or>
     (name = ''set_max_velocity'' \<and> h = cmd_stepper_set_max_velocity \<and> mandatory = 3 \<and>
        optional = 0) \<or>
     (name = ''set_micro_step_res'' \<and> h = cmd_stepper_set_micro_step_res \<and> mandatory = 3 \<and>
        optional = 0) \<or>
     (name = ''set_actual_position'' \<and> h = cmd_stepper_set_actual_position \<and> mandatory = 3 \<and>
        optional = 0) \<or>
     (name = ''set_target_position'' \<and> h = cmd_stepper_set_target_position \<and> mandatory = 3 \<and>
        optional = 0) \<or>
     (name = ''enable_constant_velocity_mode'' \<and> h = cmd_stepper_enable_constant_velocity_mode \<and>
        mandatory = 4 \<and> optional = 0) \<or>
     (name = ''info'' \<and> h = cmd_stepper_info \<and> mandatory = 2 \<and> optional = 0)"
    unfolding stepper_cmds_def by (simp only: list.set insert_iff empty_iff prod.inject simp_thms)
  then show thesis
    apply (elim disjE conjE)
    apply (rule enable; assumption)
    apply (rule move; assumption)
    apply (rule set_max_velocity; assumption)
    apply (rule set_micro_step_res; assumption)
    apply (rule set_actual_position; assumption)
    apply (rule set_target_position; assumption)
    apply (rule enable_constant_velocity_mode; assumption)
    apply (rule info; assumption)
    done
qed

subsection \<open>Every handler keeps the notifier invariant\<close>

lemma notifier_inv_init: "notifier_inv init_state"
  by (simp add: notifier_inv_def init_state_def threads_created_def threads_started_def)

lemma start_polling_inv: "notifier_inv s \<Longrightarrow> notifier_inv (snd (start_polling e s))"
proof (cases "poll_thread_started s")
  case True
  assume "notifier_inv s"
  with True show ?thesis by (simp add: start_polling_started)
next
  case False
  assume inv: "notifier_inv s"
  show ?thesis
  proof (cases "thread_create_ret e (kernel_calls s @ [K_poll_signal_init])")
    case None
    with False inv show ?thesis
      by (simp add: start_polling_fail notifier_inv_def threads_created_def threads_started_def)
  next
    case (Some tid)
    with False inv show ?thesis
      by (simp add: start_polling_set notifier_inv_def threads_created_def threads_started_def)
  qed
qed

lemma ensure_listener_inv: "notifier_inv s \<Longrightarrow> notifier_inv (ensure_listener e s)"
  by (simp add: ensure_listener_def start_polling_inv)

lemma issue_inv: "notifier_inv s \<Longrightarrow> notifier_inv (snd (issue e c s))"
  by (simp add: notifier_inv_def threads_created_def threads_started_def statics_issue)

lemma not_found_inv: "notifier_inv s \<Longrightarrow> notifier_inv (snd (not_found argv s))"
  by (simp add: notifier_inv_def threads_created_def threads_started_def statics_not_found)

lemma enable_inv: "notifier_inv s \<Longrightarrow> notifier_inv (snd (cmd_stepper_enable e argv s))"
proof -
  assume inv: "notifier_inv s"
  show ?thesis
  proof (cases "argv ! arg_idx_param = ''on'' \<or> argv ! arg_idx_param = ''off''")
    case False
    with inv show ?thesis
      by (simp add: invalid_enable notifier_inv_def threads_created_def threads_started_def out_defs)
  next
    case True
    with inv show ?thesis
      by (cases "device_get_binding e (argv ! arg_idx_dev)")
        (simp_all add: unbound_enable bound_enable not_found_inv issue_inv)
  qed
qed

lemma move_inv: "notifier_inv s \<Longrightarrow> notifier_inv (snd (cmd_stepper_move e argv s))"
  by (cases "device_get_binding e (argv ! arg_idx_dev)")
    (simp_all add: unbound_move bound_move not_found_inv issue_inv ensure_listener_inv)

lemma set_max_velocity_inv:
  "notifier_inv s \<Longrightarrow> notifier_inv (snd (cmd_stepper_set_max_velocity e argv s))"
  by (cases "device_get_binding e (argv ! arg_idx_dev)")
    (simp_all add: unbound_set_max_velocity bound_set_max_velocity not_found_inv issue_inv)

lemma set_micro_step_res_inv:
  "notifier_inv s \<Longrightarrow> notifier_inv (snd (cmd_stepper_set_micro_step_res e argv s))"
  by (cases "device_get_binding e (argv ! arg_idx_dev)")
    (simp_all add: unbound_set_micro_step_res bound_set_micro_step_res not_found_inv issue_inv)

lemma set_actual_position_inv:
  "notifier_inv s \<Longrightarrow> notifier_inv (snd (cmd_stepper_set_actual_position e argv s))"
  by (cases "device_get_binding e (argv ! arg_idx_dev)")
    (simp_all add: unbound_set_actual_position bound_set_actual_position not_found_inv issue_inv)

lemma set_target_position_inv:
  "notifier_inv s \<Longrightarrow> notifier_inv (snd (cmd_stepper_set_target_position e argv s))"
  by (cases "device_get_binding e (argv ! arg_idx_dev)")
    (simp_all add: unbound_set_target_position bound_set_target_position not_found_inv issue_inv
      ensure_listener_inv)

lemma enable_constant_velocity_mode_inv:
  "notifier_inv s \<Longrightarrow> notifier_inv (snd (cmd_stepper_enable_constant_velocity_mode e argv s))"
  by (cases "device_get_binding e (argv ! arg_idx_dev)")
    (simp_all add: unbound_enable_constant_velocity_mode bound_enable_constant_velocity_mode
      not_found_inv issue_inv)

lemma info_inv: "notifier_inv s \<Longrightarrow> notifier_inv (snd (cmd_stepper_info e argv s))"
proof (cases "device_get_binding e (argv ! arg_idx_dev)")
  case None
  assume "notifier_inv s"
  with None show ?thesis by (simp add: unbound_info not_found_inv)
next
  case (Some dev)
  assume "notifier_inv s"
  then show ?thesis
    by (simp add: bound_info [OF Some] notifier_inv_def threads_created_def threads_started_def)
qed

lemma handler_inv:
  "h \<in> set stepper_handlers \<Longrightarrow> notifier_inv s \<Longrightarrow> notifier_inv (snd (h e argv s))"
  unfolding stepper_handlers_def stepper_cmds_def
  by (auto simp: enable_inv move_inv set_max_velocity_inv set_micro_step_res_inv
      set_actual_position_inv set_target_position_inv enable_constant_velocity_mode_inv info_inv)

lemma run_cmds_inv:
  "\<forall>(h, argv) \<in> set cs. h \<in> set stepper_handlers \<Longrightarrow> notifier_inv s \<Longrightarrow>
   notifier_inv (run_cmds e cs s)"
proof (induction cs arbitrary: s)
  case Nil
  then show ?case by simp
next
  case (Cons c cs)
  obtain h argv where c: "c = (h, argv)" by (cases c)
  from Cons.prems c have "h \<in> set stepper_handlers" by simp
  then have "notifier_inv (snd (h e argv s))" using Cons.prems(2) by (rule handler_inv)
  moreover from Cons.prems have "\<forall>(h, argv) \<in> set cs. h \<in> set stepper_handlers" by simp
  ultimately show ?case using Cons.IH c by simp
qed

subsection \<open>One pass of the listener\<close>

lemma pass_fired:
  "k_poll s \<Longrightarrow> result (stepper_signal s) = STEPPER_SIGNAL_STEPS_COMPLETED e \<Longrightarrow>
   stepper_poll_thread_pass e s =
     Some (s\<lparr>shell_out := shell_out s @ [Shell_print ''Stepper: All steps completed'' []],
             stepper_signal := (stepper_signal s)\<lparr>signaled := 0\<rparr>,
             kernel_calls := kernel_calls s @ [K_poll_signal_reset]\<rparr>)"
  by (simp add: stepper_poll_thread_pass_def k_poll_signal_reset_def shell_print_def)

lemma pass_idle: "\<not> k_poll s \<Longrightarrow> stepper_poll_thread_pass e s = None"
  by (simp add: stepper_poll_thread_pass_def)

section \<open>The claims\<close>

subsection \<open>C1: lazy start of the listener\<close>

text \<open>
  As stated, C1 says that the first call of \<open>start_polling\<close> creates and starts the
  thread and sets the flag, and that no later call creates anything. That fails when
  \<open>k_thread_create\<close> hands back NULL on the first call: \<open>start_polling\<close> takes
  its \<open>if (!tid)\<close> branch and returns before the flag is set, so after the first
  \<open>move\<close> the flag is clear and no thread runs, and the second \<open>move\<close>
  initialises the signal and creates the thread again.
\<close>

theorem failed_creation_is_retried:
  "\<not> poll_thread_started
       (run_cmds flaky_env [(cmd_stepper_move, [''move'', ''motorA'', ''2000''])] init_state) \<and>
   threads_started
       (run_cmds flaky_env [(cmd_stepper_move, [''move'', ''motorA'', ''2000''])] init_state) = 0 \<and>
   kernel_calls
       (run_cmds flaky_env
          [(cmd_stepper_move, [''move'', ''motorA'', ''2000'']),
           (cmd_stepper_move, [''move'', ''motorA'', ''2000''])] init_state) =
     [K_poll_signal_init, K_thread_create None,
      K_poll_signal_init, K_thread_create (Some addr_poll_thread),
      K_thread_name_set addr_poll_thread ''stepper_poll_thread'',
      K_thread_start addr_poll_thread]"
  by (simp add: flaky_env_def demo_defs init_state_def cmd_stepper_move_def parse_device_arg_def
      start_polling_def kernel_defs out_defs stepper_move_def hw_def threads_started_def Let_def)

text \<open>
  C1, amended. Over every sequence of commands of the table, run from the initial
  state in any environment, at most one listener thread is created and at most one is
  started. A call of \<open>start_polling\<close> that finds the flag set returns 0 and changes
  nothing. A call that finds it clear initialises the signal and asks for the thread:
  when the kernel gives one, the thread is named and started and the flag is set; when
  it gives none, the call returns \<open>-ENOEXEC\<close>, starts nothing and leaves the flag
  clear, so the next call asks again.
\<close>

theorem listener_started_at_most_once:
  assumes "\<forall>(h, argv) \<in> set cs. h \<in> set stepper_handlers"
  shows "threads_created (run_cmds e cs init_state) \<le> 1 \<and>
         threads_started (run_cmds e cs init_state) \<le> 1 \<and>
         (poll_thread_started s \<longrightarrow> start_polling e s = (0, s)) \<and>
         (\<not> poll_thread_started s \<and>
          thread_create_ret e (kernel_calls s @ [K_poll_signal_init]) = Some tid \<longrightarrow>
            start_polling e s =
              (0, s\<lparr>poll_thread_started := True,
                    stepper_signal := (stepper_signal s)\<lparr>signaled := 0\<rparr>,
                    kernel_calls := kernel_calls s @
                      [K_poll_signal_init, K_thread_create (Some tid),
                       K_thread_name_set tid ''stepper_poll_thread'', K_thread_start tid]\<rparr>)) \<and>
         (\<not> poll_thread_started s \<and>
          thread_create_ret e (kernel_calls s @ [K_poll_signal_init]) = None \<longrightarrow>
            fst (start_polling e s) = - ENOEXEC \<and>
            \<not> poll_thread_started (snd (start_polling e s)) \<and>
            threads_started (snd (start_polling e s)) = threads_started s)"
proof -
  have "notifier_inv (run_cmds e cs init_state)"
    using assms notifier_inv_init by (rule run_cmds_inv)
  then have "threads_created (run_cmds e cs init_state) \<le> 1"
    and "threads_started (run_cmds e cs init_state) \<le> 1"
    by (simp_all add: notifier_inv_def)
  then show ?thesis
    by (simp add: start_polling_started start_polling_set start_polling_fail threads_started_def)
qed

text \<open>
  Three asynchronous commands in a row on \<open>motorA\<close>: one thread is started, by the
  first call of \<open>start_polling\<close>.
\<close>

theorem listener_started_at_most_once_witness:
  "cmd_stepper_move \<in> set stepper_handlers \<and>
   cmd_stepper_set_target_position \<in> set stepper_handlers \<and>
   threads_started
     (run_cmds demo_env
        [(cmd_stepper_move, [''move'', ''motorA'', ''2000'']),
         (cmd_stepper_set_target_position, [''set_target_position'', ''motorA'', ''100'']),
         (cmd_stepper_move, [''move'', ''motorA'', ''-5''])] init_state) \<le> 1 \<and>
   start_polling demo_env init_state =
     (0, init_state\<lparr>poll_thread_started := True,
           kernel_calls :=
             [K_poll_signal_init, K_thread_create (Some addr_poll_thread),
              K_thread_name_set addr_poll_thread ''stepper_poll_thread'',
              K_thread_start addr_poll_thread]\<rparr>)"
  using listener_started_at_most_once
    [of "[(cmd_stepper_move, [''move'', ''motorA'', ''2000'']),
          (cmd_stepper_set_target_position, [''set_target_position'', ''motorA'', ''100'']),
          (cmd_stepper_move, [''move'', ''motorA'', ''-5''])]"
        demo_env init_state addr_poll_thread]
  by (simp add: stepper_handlers_def stepper_cmds_def demo_env_def init_state_def)

subsection \<open>C2: the listener reports a completion once\<close>

text \<open>
  C2. When the listener wakes on a signal that has fired with the result
  \<open>STEPPER_SIGNAL_STEPS_COMPLETED\<close>, that pass prints the completion notice once and
  resets the signal. The signal is then idle, so the next pass blocks in \<open>k_poll\<close>
  and the loop comes to rest with exactly that one notice, however many passes it is
  given. A later raise of the signal is reported in the same way, so the signal can be
  armed and fired again.
\<close>

theorem listener_reports_once_and_resets:
  assumes "k_poll s"
    and "result (stepper_signal s) = STEPPER_SIGNAL_STEPS_COMPLETED e"
  shows "let s' = s\<lparr>shell_out := shell_out s @ [Shell_print ''Stepper: All steps completed'' []],
                     stepper_signal := (stepper_signal s)\<lparr>signaled := 0\<rparr>,
                     kernel_calls := kernel_calls s @ [K_poll_signal_reset]\<rparr>
         in stepper_poll_thread_pass e s = Some s' \<and>
            stepper_poll_thread_pass e s' = None \<and>
            stepper_poll_thread e (Suc n) s = (Blocked, s') \<and>
            shell_out
              (snd (stepper_poll_thread e (Suc m)
                  (k_poll_signal_raise (STEPPER_SIGNAL_STEPS_COMPLETED e) s'))) =
              shell_out s' @ [Shell_print ''Stepper: All steps completed'' []]"
proof -
  define s' where "s' = s\<lparr>shell_out := shell_out s @ [Shell_print ''Stepper: All steps completed'' []],
                     stepper_signal := (stepper_signal s)\<lparr>signaled := 0\<rparr>,
                     kernel_calls := kernel_calls s @ [K_poll_signal_reset]\<rparr>"
  have p: "stepper_poll_thread_pass e s = Some s'"
    using assms by (simp add: pass_fired s'_def)
  have idle: "\<not> k_poll s'"
    by (simp add: s'_def k_poll_def)
  then have q: "stepper_poll_thread_pass e s' = None"
    by (rule pass_idle)
  have loop: "stepper_poll_thread e (Suc k) t = (Blocked, t')"
    if "stepper_poll_thread_pass e t = Some t'" and "\<not> k_poll t'" for k t t'
    using that by (cases k) (simp_all add: pass_idle)
  have r: "stepper_poll_thread e (Suc n) s = (Blocked, s')"
    using p idle by (rule loop)
  let ?t = "k_poll_signal_raise (STEPPER_SIGNAL_STEPS_COMPLETED e) s'"
  let ?t' = "?t\<lparr>shell_out := shell_out ?t @ [Shell_print ''Stepper: All steps completed'' []],
                stepper_signal := (stepper_signal ?t)\<lparr>signaled := 0\<rparr>,
                kernel_calls := kernel_calls ?t @ [K_poll_signal_reset]\<rparr>"
  have "stepper_poll_thread_pass e ?t = Some ?t'"
    by (rule pass_fired) (simp_all add: k_poll_signal_raise_def k_poll_def)
  moreover have "\<not> k_poll ?t'"
    by (simp add: k_poll_def)
  ultimately have "stepper_poll_thread e (Suc m) ?t = (Blocked, ?t')"
    by (rule loop)
  then have again: "shell_out (snd (stepper_poll_thread e (Suc m) ?t)) =
      shell_out s' @ [Shell_print ''Stepper: All steps completed'' []]"
    by (simp add: k_poll_signal_raise_def)
  show ?thesis
    using p q r again unfolding s'_def Let_def by simp
qed

text \<open>The signal raised once in the initial state: one notice, one reset, then blocked.\<close>

theorem listener_reports_once_and_resets_witness:
  "k_poll (k_poll_signal_raise 0 init_state) \<and>
   result (stepper_signal (k_poll_signal_raise 0 init_state)) =
     STEPPER_SIGNAL_STEPS_COMPLETED demo_env \<and>
   stepper_poll_thread demo_env 3 (k_poll_signal_raise 0 init_state) =
     (Blocked,
      init_state\<lparr>shell_out := [Shell_print ''Stepper: All steps completed'' []],
                 kernel_calls := [K_poll_signal_reset]\<rparr>)"
  using listener_reports_once_and_resets [of "k_poll_signal_raise 0 init_state" demo_env 2 0]
  by (simp add: k_poll_def k_poll_signal_raise_def init_state_def demo_env_def Let_def)

subsection \<open>C3: thread creation fails during an asynchronous command\<close>

text \<open>
  C3 says that an asynchronous command fails with \<open>-ENOEXEC\<close> and issues no driver
  call when the listener thread cannot be created. \<open>start_polling\<close> does return
  \<open>-ENOEXEC\<close> then, but \<open>cmd_stepper_move\<close> and
  \<open>cmd_stepper_set_target_position\<close> call it as a statement and drop the value:
  with every thread creation failing, \<open>move motorA 2000\<close> and
  \<open>set_target_position motorA 100\<close> print the error of \<open>start_polling\<close>, make
  the driver call with the signal attached and return the driver's 0.
\<close>

theorem move_proceeds_without_listener:
  "start_polling no_thread_env init_state =
     (- ENOEXEC,
      init_state\<lparr>shell_out := [Shell_error ''Cannot start poll thread'' []],
                 kernel_calls := [K_poll_signal_init, K_thread_create None]\<rparr>) \<and>
   cmd_stepper_move no_thread_env [''move'', ''motorA'', ''2000''] init_state =
     (0,
      init_state\<lparr>shell_out := [Shell_error ''Cannot start poll thread'' []],
                 kernel_calls := [K_poll_signal_init, K_thread_create None],
                 hw_calls := [Stepper_move motorA 2000 (Some addr_stepper_signal)]\<rparr>) \<and>
   cmd_stepper_set_target_position no_thread_env [''set_target_position'', ''motorA'', ''100'']
       init_state =
     (0,
      init_state\<lparr>shell_out := [Shell_error ''Cannot start poll thread'' []],
                 kernel_calls := [K_poll_signal_init, K_thread_create None],
                 hw_calls := [Stepper_set_target_position motorA 100 (Some addr_stepper_signal)]\<rparr>)"
  by (simp add: no_thread_env_def demo_defs init_state_def cmd_stepper_move_def
      cmd_stepper_set_target_position_def parse_device_arg_def start_polling_def kernel_defs
      out_defs stepper_move_def stepper_set_target_position_def hw_def Let_def)

subsection \<open>C4: numeric arguments\<close>

text \<open>
  As stated, C4 says that a malformed number is answered with \<open>-EINVAL\<close> before any
  driver call. No handler looks at what the parser made of its token:
  \<open>move motorA abc\<close> calls the driver with 0 steps and
  \<open>set_micro_step_res motorA 12x\<close> with resolution 12, and both return the
  driver's 0.
\<close>

theorem malformed_number_reaches_driver:
  "fst (cmd_stepper_move demo_env [''move'', ''motorA'', ''abc''] init_state) = 0 \<and>
   fst (cmd_stepper_move demo_env [''move'', ''motorA'', ''abc''] init_state) \<noteq> - EINVAL \<and>
   hw_calls (snd (cmd_stepper_move demo_env [''move'', ''motorA'', ''abc''] init_state)) =
     [Stepper_move motorA 0 (Some addr_stepper_signal)] \<and>
   fst (cmd_stepper_set_micro_step_res demo_env [''set_micro_step_res'', ''motorA'', ''12x'']
          init_state) = 0 \<and>
   hw_calls (snd (cmd_stepper_set_micro_step_res demo_env
                    [''set_micro_step_res'', ''motorA'', ''12x''] init_state)) =
     [Stepper_set_micro_step_res motorA 12]"
  by (simp add: demo_defs init_state_def cmd_stepper_move_def cmd_stepper_set_micro_step_res_def
      parse_device_arg_def start_polling_def kernel_defs out_defs stepper_move_def
      stepper_set_micro_step_res_def hw_def Let_def EINVAL_def)

text \<open>
  C4, amended. For each of the six commands that take a number and for every
  argument list of the right length, whatever the numeric tokens are: when the device
  is unknown the command returns \<open>-ENODEV\<close> without a driver call, and when it is
  known the command makes exactly the driver call of \<open>numeric_call\<close>, with the
  values as the parser gave them, and returns the driver's code. No numeric token is
  ever rejected by the shell.
\<close>

theorem numeric_argument_never_rejected:
  assumes "(name, h, mandatory, optional) \<in> set stepper_cmds"
    and "name \<in> set numeric_cmds"
    and "length argv = mandatory"
  shows "(device_get_binding e (argv ! arg_idx_dev) = None \<longrightarrow>
            fst (h e argv s) = - ENODEV \<and> hw_calls (snd (h e argv s)) = hw_calls s) \<and>
         (\<forall>dev. device_get_binding e (argv ! arg_idx_dev) = Some dev \<longrightarrow>
            hw_calls (snd (h e argv s)) = hw_calls s @ [numeric_call e name argv dev] \<and>
            fst (h e argv s) = ret (stepper_api e (hw_calls s) (numeric_call e name argv dev)))"
  using assms(1)
proof (cases rule: stepper_cmds_cases)
  case enable
  with assms(2) show ?thesis by (simp add: numeric_cmds_def)
next
  case move
  then show ?thesis
    by (simp add: numeric_call_def unbound_move bound_move fst_not_found statics_not_found
        fst_issue hw_calls_issue hw_calls_ensure_listener)
next
  case set_max_velocity
  then show ?thesis
    by (simp add: numeric_call_def unbound_set_max_velocity bound_set_max_velocity fst_not_found
        statics_not_found fst_issue hw_calls_issue)
next
  case set_micro_step_res
  then show ?thesis
    by (simp add: numeric_call_def unbound_set_micro_step_res bound_set_micro_step_res
        fst_not_found statics_not_found fst_issue hw_calls_issue)
next
  case set_actual_position
  then show ?thesis
    by (simp add: numeric_call_def unbound_set_actual_position bound_set_actual_position
        fst_not_found statics_not_found fst_issue hw_calls_issue)
next
  case set_target_position
  then show ?thesis
    by (simp add: numeric_call_def unbound_set_target_position bound_set_target_position
        fst_not_found statics_not_found fst_issue hw_calls_issue hw_calls_ensure_listener)
next
  case enable_constant_velocity_mode
  then show ?thesis
    by (simp add: numeric_call_def unbound_enable_constant_velocity_mode
        bound_enable_constant_velocity_mode fst_not_found statics_not_found fst_issue
        hw_calls_issue)
next
  case info
  with assms(2) show ?thesis by (simp add: numeric_cmds_def)
qed

text \<open>\<open>set_max_velocity motorA fast\<close>: the driver is called with velocity 0.\<close>

theorem numeric_argument_never_rejected_witness:
  "(''set_max_velocity'', cmd_stepper_set_max_velocity, 3, 0) \<in> set stepper_cmds \<and>
   ''set_max_velocity'' \<in> set numeric_cmds \<and>
   length [''set_max_velocity'', ''motorA'', ''fast''] = 3 \<and>
   device_get_binding demo_env ([''set_max_velocity'', ''motorA'', ''fast''] ! arg_idx_dev) =
     Some motorA \<and>
   hw_calls (snd (cmd_stepper_set_max_velocity demo_env [''set_max_velocity'', ''motorA'', ''fast'']
                    init_state)) =
     [Stepper_set_max_velocity motorA 0] \<and>
   fst (cmd_stepper_set_max_velocity demo_env [''set_max_velocity'', ''motorA'', ''fast'']
          init_state) = 0"
  using numeric_argument_never_rejected
    [of "''set_max_velocity''" cmd_stepper_set_max_velocity 3 0
        "[''set_max_velocity'', ''motorA'', ''fast'']" demo_env init_state]
  by (simp add: stepper_cmds_def numeric_cmds_def numeric_call_def demo_defs init_state_def)

subsection \<open>C5: unknown device\<close>

text \<open>
  As stated, C5 says that every command returns \<open>-ENODEV\<close> for an unknown device.
  \<open>cmd_stepper_enable\<close> checks its on/off token before it resolves the device, so
  \<open>enable ghost maybe\<close> returns \<open>-EINVAL\<close>.
\<close>

theorem enable_checks_token_before_device:
  "device_get_binding demo_env ([''enable'', ''ghost'', ''maybe''] ! arg_idx_dev) = None \<and>
   fst (cmd_stepper_enable demo_env [''enable'', ''ghost'', ''maybe''] init_state) = - EINVAL \<and>
   fst (cmd_stepper_enable demo_env [''enable'', ''ghost'', ''maybe''] init_state) \<noteq> - ENODEV"
  by (simp add: demo_defs cmd_stepper_enable_def EINVAL_def ENODEV_def)

text \<open>
  C5, amended. For every command of the table, an unknown device means that no
  driver call is issued; the command returns \<open>-ENODEV\<close>, except \<open>enable\<close> with
  a token other than "on" and "off", which returns \<open>-EINVAL\<close>.
\<close>

theorem unknown_device_no_capability_call:
  assumes "(name, h, mandatory, optional) \<in> set stepper_cmds"
    and "length argv = mandatory"
    and "device_get_binding e (argv ! arg_idx_dev) = None"
  shows "hw_calls (snd (h e argv s)) = hw_calls s \<and>
         fst (h e argv s) =
           (if name = ''enable'' \<and> argv ! arg_idx_param \<noteq> ''on'' \<and> argv ! arg_idx_param \<noteq> ''off''
            then - EINVAL else - ENODEV)"
  using assms(1)
proof (cases rule: stepper_cmds_cases)
  case enable
  show ?thesis
  proof (cases "argv ! arg_idx_param = ''on'' \<or> argv ! arg_idx_param = ''off''")
    case True
    with enable assms(3) show ?thesis
      by (auto simp add: unbound_enable fst_not_found statics_not_found)
  next
    case False
    with enable show ?thesis
      by (simp add: invalid_enable out_defs)
  qed
next
  case move
  with assms(3) show ?thesis
    by (simp add: unbound_move fst_not_found statics_not_found)
next
  case set_max_velocity
  with assms(3) show ?thesis
    by (simp add: unbound_set_max_velocity fst_not_found statics_not_found)
next
  case set_micro_step_res
  with assms(3) show ?thesis
    by (simp add: unbound_set_micro_step_res fst_not_found statics_not_found)
next
  case set_actual_position
  with assms(3) show ?thesis
    by (simp add: unbound_set_actual_position fst_not_found statics_not_found)
next
  case set_target_position
  with assms(3) show ?thesis
    by (simp add: unbound_set_target_position fst_not_found statics_not_found)
next
  case enable_constant_velocity_mode
  with assms(3) show ?thesis
    by (simp add: unbound_enable_constant_velocity_mode fst_not_found statics_not_found)
next
  case info
  with assms(3) show ?thesis
    by (simp add: unbound_info fst_not_found statics_not_found)
qed

text \<open>\<open>info ghost\<close>: \<open>-ENODEV\<close> and no query.\<close>

theorem unknown_device_no_capability_call_witness:
  "(''info'', cmd_stepper_info, 2, 0) \<in> set stepper_cmds \<and>
   length [''info'', ''ghost''] = 2 \<and>
   device_get_binding demo_env ([''info'', ''ghost''] ! arg_idx_dev) = None \<and>
   hw_calls (snd (cmd_stepper_info demo_env [''info'', ''ghost''] init_state)) = [] \<and>
   fst (cmd_stepper_info demo_env [''info'', ''ghost''] init_state) = - ENODEV"
  using unknown_device_no_capability_call
    [of "''info''" cmd_stepper_info 2 0 "[''info'', ''ghost'']" demo_env init_state]
  by (simp add: stepper_cmds_def demo_defs init_state_def)

subsection \<open>C6: unknown device and the completion signal\<close>

text \<open>
  C6. \<open>set_target_position\<close> or \<open>move\<close> on an unknown device returns
  \<open>-ENODEV\<close> at once: the started flag and the signal keep their values, no kernel
  call is made (the listener is not started) and no driver call is made (the signal is
  not handed out).
\<close>

theorem unknown_device_leaves_notifier_untouched:
  assumes "h = cmd_stepper_set_target_position \<or> h = cmd_stepper_move"
    and "length argv = 3"
    and "device_get_binding e (argv ! arg_idx_dev) = None"
  shows "fst (h e argv s) = - ENODEV \<and>
         poll_thread_started (snd (h e argv s)) = poll_thread_started s \<and>
         stepper_signal (snd (h e argv s)) = stepper_signal s \<and>
         kernel_calls (snd (h e argv s)) = kernel_calls s \<and>
         hw_calls (snd (h e argv s)) = hw_calls s"
  using assms(1,3)
  by (auto simp add: unbound_move unbound_set_target_position fst_not_found statics_not_found)

text \<open>\<open>set_target_position ghost 100\<close>: only the error message is added.\<close>

theorem unknown_device_leaves_notifier_untouched_witness:
  "length [''set_target_position'', ''ghost'', ''100''] = 3 \<and>
   device_get_binding demo_env ([''set_target_position'', ''ghost'', ''100''] ! arg_idx_dev) = None \<and>
   cmd_stepper_set_target_position demo_env [''set_target_position'', ''ghost'', ''100''] init_state =
     (- ENODEV, init_state\<lparr>shell_out := [Shell_error ''Stepper device %s not found'' [S ''ghost'']]\<rparr>)"
proof -
  have "fst (cmd_stepper_set_target_position demo_env [''set_target_position'', ''ghost'', ''100'']
          init_state) = - ENODEV"
    using unknown_device_leaves_notifier_untouched
      [of cmd_stepper_set_target_position "[''set_target_position'', ''ghost'', ''100'']" demo_env
          init_state]
    by (simp add: demo_defs)
  then show ?thesis
    by (simp add: demo_defs init_state_def cmd_stepper_set_target_position_def
        parse_device_arg_def out_defs)
qed

subsection \<open>C7: the on/off token of enable\<close>

text \<open>
  C7. \<open>enable\<close> with a token other than "on" and "off" returns \<open>-EINVAL\<close> and
  makes no driver call; on a known device, "on" calls \<open>stepper_enable\<close> with true
  and "off" with false.
\<close>

theorem enable_token_decides:
  assumes "length argv = 3"
  shows "(argv ! arg_idx_param \<noteq> ''on'' \<and> argv ! arg_idx_param \<noteq> ''off'' \<longrightarrow>
            fst (cmd_stepper_enable e argv s) = - EINVAL \<and>
            hw_calls (snd (cmd_stepper_enable e argv s)) = hw_calls s) \<and>
         (\<forall>dev. device_get_binding e (argv ! arg_idx_dev) = Some dev \<longrightarrow>
            (argv ! arg_idx_param = ''on'' \<longrightarrow>
               hw_calls (snd (cmd_stepper_enable e argv s)) =
                 hw_calls s @ [Stepper_enable dev True]) \<and>
            (argv ! arg_idx_param = ''off'' \<longrightarrow>
               hw_calls (snd (cmd_stepper_enable e argv s)) =
                 hw_calls s @ [Stepper_enable dev False]))"
  by (simp add: invalid_enable out_defs bound_enable hw_calls_issue)

text \<open>\<open>enable motorA\<close> with "maybe", "on" and "off".\<close>

theorem enable_token_decides_witness:
  "length [''enable'', ''motorA'', ''on''] = 3 \<and>
   fst (cmd_stepper_enable demo_env [''enable'', ''motorA'', ''maybe''] init_state) = - EINVAL \<and>
   hw_calls (snd (cmd_stepper_enable demo_env [''enable'', ''motorA'', ''maybe''] init_state)) = [] \<and>
   hw_calls (snd (cmd_stepper_enable demo_env [''enable'', ''motorA'', ''on''] init_state)) =
     [Stepper_enable motorA True] \<and>
   hw_calls (snd (cmd_stepper_enable demo_env [''enable'', ''motorA'', ''off''] init_state)) =
     [Stepper_enable motorA False]"
  using enable_token_decides [of "[''enable'', ''motorA'', ''maybe'']" demo_env init_state]
    enable_token_decides [of "[''enable'', ''motorA'', ''on'']" demo_env init_state]
    enable_token_decides [of "[''enable'', ''motorA'', ''off'']" demo_env init_state]
  by (simp add: demo_defs init_state_def)

subsection \<open>C8: info is partial-success\<close>

text \<open>
  C8. \<open>info\<close> on a known device makes the three queries, in order, whatever the
  earlier ones returned, and after the two header lines prints one line per query: a
  warning with the code when that query returned a negative code, its value otherwise.
  Each line depends on the reply of its own query only.
\<close>

theorem info_queries_are_independent:
  assumes "length argv = 2"
    and "device_get_binding e (argv ! arg_idx_dev) = Some dev"
  shows "hw_calls (snd (cmd_stepper_info e argv s)) =
           hw_calls s @
             [Stepper_get_actual_position dev, Stepper_get_micro_step_res dev,
              Stepper_is_moving dev] \<and>
         shell_out (snd (cmd_stepper_info e argv s)) =
           shell_out s @
             [Shell_print ''Stepper Info:'' [],
              Shell_print ''Device: %s'' [S (dev_name dev)],
              report_actual_position
                (stepper_api e (hw_calls s) (Stepper_get_actual_position dev)),
              report_micro_step_res
                (stepper_api e (hw_calls s @ [Stepper_get_actual_position dev])
                   (Stepper_get_micro_step_res dev)),
              report_is_moving
                (stepper_api e
                   (hw_calls s @ [Stepper_get_actual_position dev, Stepper_get_micro_step_res dev])
                   (Stepper_is_moving dev))]"
  by (simp add: bound_info [OF assms(2)])

text \<open>
  \<open>is_moving\<close> fails while position and resolution succeed: both values are
  reported, followed by the warning.
\<close>

theorem info_queries_are_independent_witness:
  "length [''info'', ''motorA''] = 2 \<and>
   device_get_binding half_env ([''info'', ''motorA''] ! arg_idx_dev) = Some motorA \<and>
   hw_calls (snd (cmd_stepper_info half_env [''info'', ''motorA''] init_state)) =
     [Stepper_get_actual_position motorA, Stepper_get_micro_step_res motorA,
      Stepper_is_moving motorA] \<and>
   shell_out (snd (cmd_stepper_info half_env [''info'', ''motorA''] init_state)) =
     [Shell_print ''Stepper Info:'' [],
      Shell_print ''Device: %s'' [S ''motorA''],
      Shell_print ''Actual Position: %d'' [D 1200],
      Shell_print ''Micro-step Resolution: %d'' [D 16],
      Shell_warn ''Failed to check if the motor is moving: %d'' [D (- 5)]]"
  using info_queries_are_independent [of "[''info'', ''motorA'']" half_env motorA init_state]
  by (simp add: half_env_def demo_defs init_state_def EIO_def report_actual_position_def
      report_micro_step_res_def report_is_moving_def)

subsection \<open>C9: the driver's code is the command's result\<close>

text \<open>
  C9. For every command other than \<open>info\<close>, on a known device (and, for
  \<open>enable\<close>, with a valid on/off token, so that a driver call is reached), the
  command makes exactly one driver call and returns the code of that call as it is:
  a non-zero code comes back unchanged and without a second attempt, 0 comes back as 0.
\<close>

theorem capability_result_is_returned:
  assumes "(name, h, mandatory, optional) \<in> set stepper_cmds"
    and "name \<noteq> ''info''"
    and "length argv = mandatory"
    and "device_get_binding e (argv ! arg_idx_dev) = Some dev"
    and "name = ''enable'' \<longrightarrow> argv ! arg_idx_param = ''on'' \<or> argv ! arg_idx_param = ''off''"
  shows "\<exists>c. hw_calls (snd (h e argv s)) = hw_calls s @ [c] \<and>
             fst (h e argv s) = ret (stepper_api e (hw_calls s) c)"
  using assms(1)
proof (cases rule: stepper_cmds_cases)
  case enable
  with assms(4,5) show ?thesis
    by (simp add: bound_enable fst_issue hw_calls_issue)
next
  case move
  with assms(4) show ?thesis
    by (simp add: bound_move fst_issue hw_calls_issue hw_calls_ensure_listener)
next
  case set_max_velocity
  with assms(4) show ?thesis
    by (simp add: bound_set_max_velocity fst_issue hw_calls_issue)
next
  case set_micro_step_res
  with assms(4) show ?thesis
    by (simp add: bound_set_micro_step_res fst_issue hw_calls_issue)
next
  case set_actual_position
  with assms(4) show ?thesis
    by (simp add: bound_set_actual_position fst_issue hw_calls_issue)
next
  case set_target_position
  with assms(4) show ?thesis
    by (simp add: bound_set_target_position fst_issue hw_calls_issue hw_calls_ensure_listener)
next
  case enable_constant_velocity_mode
  with assms(4) show ?thesis
    by (simp add: bound_enable_constant_velocity_mode fst_issue hw_calls_issue)
next
  case info
  with assms(2) show ?thesis by simp
qed

text \<open>\<open>set_actual_position motorA -7\<close> on a failing driver returns \<open>-EIO\<close>.\<close>

theorem capability_result_is_returned_witness:
  "(''set_actual_position'', cmd_stepper_set_actual_position, 3, 0) \<in> set stepper_cmds \<and>
   ''set_actual_position'' \<noteq> ''info'' \<and>
   length [''set_actual_position'', ''motorA'', ''-7''] = 3 \<and>
   device_get_binding faulty_env ([''set_actual_position'', ''motorA'', ''-7''] ! arg_idx_dev) =
     Some motorA \<and>
   hw_calls (snd (cmd_stepper_set_actual_position faulty_env
                    [''set_actual_position'', ''motorA'', ''-7''] init_state)) =
     [Stepper_set_actual_position motorA (- 7)] \<and>
   fst (cmd_stepper_set_actual_position faulty_env [''set_actual_position'', ''motorA'', ''-7'']
          init_state) = - EIO"
proof -
  have "\<exists>c. hw_calls (snd (cmd_stepper_set_actual_position faulty_env
                    [''set_actual_position'', ''motorA'', ''-7''] init_state)) =
               hw_calls init_state @ [c] \<and>
             fst (cmd_stepper_set_actual_position faulty_env
                    [''set_actual_position'', ''motorA'', ''-7''] init_state) =
               ret (stepper_api faulty_env (hw_calls init_state) c)"
    by (rule capability_result_is_returned
          [of "''set_actual_position''" cmd_stepper_set_actual_position 3 0
              "[''set_actual_position'', ''motorA'', ''-7'']" faulty_env motorA init_state])
       (simp_all add: stepper_cmds_def faulty_env_def demo_defs)
  then show ?thesis
    by (simp add: stepper_cmds_def faulty_env_def demo_defs init_state_def
        cmd_stepper_set_actual_position_def parse_device_arg_def
        stepper_set_actual_position_def hw_def out_defs)
qed

subsection \<open>C10: info returns 0\<close>

text \<open>
  C10. \<open>info\<close> on a known device returns 0, whatever the three queries return.
\<close>

theorem info_always_returns_zero:
  assumes "length argv = 2"
    and "device_get_binding e (argv ! arg_idx_dev) = Some dev"
  shows "fst (cmd_stepper_info e argv s) = 0"
  by (simp add: bound_info [OF assms(2)])

text \<open>All three queries fail with \<open>-EIO\<close>; \<open>info\<close> still returns 0.\<close>

theorem info_always_returns_zero_witness:
  "length [''info'', ''motorA''] = 2 \<and>
   device_get_binding faulty_env ([''info'', ''motorA''] ! arg_idx_dev) = Some motorA \<and>
   ret (stepper_api faulty_env [] (Stepper_get_actual_position motorA)) < 0 \<and>
   ret (stepper_api faulty_env [Stepper_get_actual_position motorA]
          (Stepper_get_micro_step_res motorA)) < 0 \<and>
   ret (stepper_api faulty_env
          [Stepper_get_actual_position motorA, Stepper_get_micro_step_res motorA]
          (Stepper_is_moving motorA)) < 0 \<and>
   fst (cmd_stepper_info faulty_env [''info'', ''motorA''] init_state) = 0"
  using info_always_returns_zero [of "[''info'', ''motorA'']" faulty_env motorA init_state]
  by (simp add: faulty_env_def demo_defs EIO_def)

end
